theory Spec2Isabelle
  imports Complex_Main
begin

section \<open>Python numbers: int, float and decimal.Decimal\<close>

text \<open>
  The strategy mixes three numeric types: \<open>int\<close> literals, binary floats (the class
  attributes \<open>atr_multiplier\<close>, \<open>min_spread\<close>, \<open>max_spread\<close>, the ATR read from the
  candle frame, the host clock) and \<open>decimal.Decimal\<close> (the reference price, the order
  amount, the quote prices). A float or a Decimal is modelled by the rational it
  denotes, or one of the special values; every operation computes the exact result and
  rounds it the way the type does. Signed zeros are identified.
\<close>

datatype xnum = NaN | NInf | Fin rat | PInf

datatype pynum = PyInt int | PyFloat xnum | PyDecimal xnum

datatype pyerror =
    TypeError | ZeroDivisionError | OverflowError
  | InvalidOperation | DivisionByZero | DecimalOverflow

definition bindE :: "'e + 'a \<Rightarrow> ('a \<Rightarrow> 'e + 'b) \<Rightarrow> 'e + 'b" where
  "bindE m f = (case m of Inl e \<Rightarrow> Inl e | Inr v \<Rightarrow> f v)"

subsection \<open>Rounding\<close>

function idigits :: "int \<Rightarrow> int \<Rightarrow> int" where
  \<comment> \<open>the number of digits of \<open>n\<close> in base \<open>b\<close>\<close>
  "idigits b n = (if n \<le> 0 \<or> b \<le> 1 then 0 else 1 + idigits b (n div b))"
  by pat_completeness auto
termination
proof (relation "measure (\<lambda>(b, n). nat n)")
  show "wf (measure (\<lambda>(b, n). nat n))"
    by simp
next
  fix b n :: int
  assume "\<not> (n \<le> 0 \<or> b \<le> 1)"
  then have "0 < n" and "1 < b"
    by auto
  then have "n div b < n"
    by (simp add: int_div_less_self)
  moreover have "0 \<le> n div b"
    using \<open>0 < n\<close> \<open>1 < b\<close> by (simp add: pos_imp_zdiv_nonneg_iff)
  ultimately show "((b, n div b), (b, n)) \<in> measure (\<lambda>(b, n). nat n)"
    using \<open>0 < n\<close> by simp
qed

declare idigits.simps [simp del]

definition ilog :: "int \<Rightarrow> rat \<Rightarrow> int" where
  \<comment> \<open>for \<open>x \<noteq> 0\<close> and \<open>b > 1\<close>: the exponent \<open>e\<close> with \<open>b^e \<le> |x| < b^(e+1)\<close>\<close>
  "ilog b x =
     (let (n, d) = quotient_of \<bar>x\<bar>;
          k = idigits b n - idigits b d
      in if power_int (of_int b) k \<le> \<bar>x\<bar> then k else k - 1)"

definition round_half_even :: "rat \<Rightarrow> int" where
  "round_half_even q =
     (let f = \<lfloor>q\<rfloor>; r = q - of_int f
      in if r < 1 / 2 then f else if 1 / 2 < r then f + 1 else if even f then f else f + 1)"

definition round_at :: "int \<Rightarrow> int \<Rightarrow> rat \<Rightarrow> rat" where
  \<comment> \<open>the multiple of \<open>b^e\<close> nearest to \<open>x\<close>, ties to the even multiple\<close>
  "round_at b e x =
     of_int (round_half_even (x / power_int (of_int b) e)) * power_int (of_int b) e"

definition float_round :: "rat \<Rightarrow> rat" where
  \<comment> \<open>IEEE 754 binary64, round-half-even: 53 significant bits, subnormals below \<open>2^-1022\<close>\<close>
  "float_round x = (if x = 0 then 0 else round_at 2 (max (ilog 2 x - 52) (- 1074)) x)"

definition float_of_rat :: "rat \<Rightarrow> xnum" where
  \<comment> \<open>a result that rounds to \<open>2^1024\<close> or beyond overflows to an infinity\<close>
  "float_of_rat x =
     (let r = float_round x
      in if r \<noteq> 0 \<and> 1023 < ilog 2 r then (if 0 < x then PInf else NInf) else Fin r)"

definition dec_round :: "rat \<Rightarrow> rat" where
  \<comment> \<open>the default decimal context: prec=28, ROUND_HALF_EVEN, Emin=-999999\<close>
  "dec_round x = (if x = 0 then 0 else round_at 10 (max (ilog 10 x - 27) (- 1000026)) x)"

definition dec_of_rat :: "rat \<Rightarrow> pyerror + xnum" where
  \<comment> \<open>Emax=999999; the Overflow signal is trapped in the default context\<close>
  "dec_of_rat x =
     (let r = dec_round x
      in if r \<noteq> 0 \<and> 999999 < ilog 10 r then Inl DecimalOverflow else Inr (Fin r))"

definition smallest_normal :: rat where
  \<comment> \<open>the smallest positive normal Decimal of the default context, \<open>1E-999999\<close>\<close>
  "smallest_normal = power_int 10 (- 999999)"

subsection \<open>Arithmetic on the values\<close>

datatype arith = Add | Sub | Mul | Div

datatype xres = Quiet | Invalid | ByZero | Undefined | ToInf bool | Val rat

fun xneg :: "xnum \<Rightarrow> xnum" where
  "xneg NaN = NaN"
| "xneg NInf = PInf"
| "xneg PInf = NInf"
| "xneg (Fin a) = Fin (- a)"

fun xsign :: "xnum \<Rightarrow> int" where
  "xsign NaN = 0"
| "xsign NInf = - 1"
| "xsign PInf = 1"
| "xsign (Fin a) = (if a < 0 then - 1 else if a = 0 then 0 else 1)"

fun xadd :: "xnum \<Rightarrow> xnum \<Rightarrow> xres" where
  "xadd NaN _ = Quiet"
| "xadd _ NaN = Quiet"
| "xadd (Fin a) (Fin b) = Val (a + b)"
| "xadd PInf NInf = Invalid"
| "xadd NInf PInf = Invalid"
| "xadd PInf _ = ToInf True"
| "xadd NInf _ = ToInf False"
| "xadd _ PInf = ToInf True"
| "xadd _ NInf = ToInf False"

fun xmul :: "xnum \<Rightarrow> xnum \<Rightarrow> xres" where
  "xmul NaN _ = Quiet"
| "xmul _ NaN = Quiet"
| "xmul (Fin a) (Fin b) = Val (a * b)"
| "xmul a b = (if xsign a * xsign b = 0 then Invalid else ToInf (0 < xsign a * xsign b))"

fun xdiv :: "xnum \<Rightarrow> xnum \<Rightarrow> xres" where
  "xdiv NaN _ = Quiet"
| "xdiv _ NaN = Quiet"
| "xdiv (Fin a) (Fin b) =
     (if b = 0 then (if a = 0 then Undefined else ByZero) else Val (a / b))"
| "xdiv (Fin a) _ = Val 0"
| "xdiv a (Fin b) = ToInf ((0 < xsign a) = (0 \<le> b))"
| "xdiv _ _ = Invalid"

fun xarith :: "arith \<Rightarrow> xnum \<Rightarrow> xnum \<Rightarrow> xres" where
  "xarith Add a b = xadd a b"
| "xarith Sub a b = xadd a (xneg b)"
| "xarith Mul a b = xmul a b"
| "xarith Div a b = xdiv a b"

definition float_op :: "arith \<Rightarrow> xnum \<Rightarrow> xnum \<Rightarrow> pyerror + xnum" where
  \<comment> \<open>Python float: an invalid operation is NaN, any division by zero raises\<close>
  "float_op f a b =
     (if f = Div \<and> b = Fin 0 then Inl ZeroDivisionError
      else case xarith f a b of
             Quiet \<Rightarrow> Inr NaN
           | Invalid \<Rightarrow> Inr NaN
           | ByZero \<Rightarrow> Inl ZeroDivisionError
           | Undefined \<Rightarrow> Inl ZeroDivisionError
           | ToInf pos \<Rightarrow> Inr (if pos then PInf else NInf)
           | Val r \<Rightarrow> Inr (float_of_rat r))"

definition dec_op :: "arith \<Rightarrow> xnum \<Rightarrow> xnum \<Rightarrow> pyerror + xnum" where
  \<comment> \<open>Decimal in the default context: a quiet NaN propagates, the signals
      InvalidOperation, DivisionByZero and Overflow raise\<close>
  "dec_op f a b =
     (case xarith f a b of
        Quiet \<Rightarrow> Inr NaN
      | Invalid \<Rightarrow> Inl InvalidOperation
      | ByZero \<Rightarrow> Inl DivisionByZero
      | Undefined \<Rightarrow> Inl InvalidOperation
      | ToInf pos \<Rightarrow> Inr (if pos then PInf else NInf)
      | Val r \<Rightarrow> dec_of_rat r)"

definition int_to_float :: "int \<Rightarrow> pyerror + xnum" where
  "int_to_float i =
     (case float_of_rat (of_int i) of Fin r \<Rightarrow> Inr (Fin r) | _ \<Rightarrow> Inl OverflowError)"

fun py_arith :: "arith \<Rightarrow> pynum \<Rightarrow> pynum \<Rightarrow> pyerror + pynum" where
  "py_arith f (PyDecimal a) (PyDecimal b) = bindE (dec_op f a b) (\<lambda>r. Inr (PyDecimal r))"
| "py_arith f (PyDecimal a) (PyInt j) =
     bindE (dec_op f a (Fin (of_int j))) (\<lambda>r. Inr (PyDecimal r))"
| "py_arith f (PyInt i) (PyDecimal b) =
     bindE (dec_op f (Fin (of_int i)) b) (\<lambda>r. Inr (PyDecimal r))"
| "py_arith f (PyDecimal a) (PyFloat b) = Inl TypeError"
| "py_arith f (PyFloat a) (PyDecimal b) = Inl TypeError"
| "py_arith f (PyFloat a) (PyFloat b) = bindE (float_op f a b) (\<lambda>r. Inr (PyFloat r))"
| "py_arith f (PyFloat a) (PyInt j) =
     bindE (int_to_float j) (\<lambda>b. bindE (float_op f a b) (\<lambda>r. Inr (PyFloat r)))"
| "py_arith f (PyInt i) (PyFloat b) =
     bindE (int_to_float i) (\<lambda>a. bindE (float_op f a b) (\<lambda>r. Inr (PyFloat r)))"
| "py_arith Add (PyInt i) (PyInt j) = Inr (PyInt (i + j))"
| "py_arith Sub (PyInt i) (PyInt j) = Inr (PyInt (i - j))"
| "py_arith Mul (PyInt i) (PyInt j) = Inr (PyInt (i * j))"
| "py_arith Div (PyInt i) (PyInt j) =
     (if j = 0 then Inl ZeroDivisionError
      else case float_of_rat (of_int i / of_int j) of
             Fin r \<Rightarrow> Inr (PyFloat (Fin r)) | _ \<Rightarrow> Inl OverflowError)"

subsection \<open>Comparison, \<open>max\<close>, \<open>min\<close> and the \<open>Decimal\<close> constructor\<close>

fun xless :: "xnum \<Rightarrow> xnum \<Rightarrow> bool" where
  "xless NaN _ = False"
| "xless _ NaN = False"
| "xless (Fin a) (Fin b) = (a < b)"
| "xless NInf NInf = False"
| "xless NInf _ = True"
| "xless PInf _ = False"
| "xless (Fin a) PInf = True"
| "xless (Fin a) NInf = False"

fun value_of :: "pynum \<Rightarrow> xnum" where
  "value_of (PyInt i) = Fin (of_int i)"
| "value_of (PyFloat a) = a"
| "value_of (PyDecimal a) = a"

fun is_Decimal :: "pynum \<Rightarrow> bool" where
  "is_Decimal (PyDecimal _) = True"
| "is_Decimal _ = False"

definition py_lt :: "pynum \<Rightarrow> pynum \<Rightarrow> pyerror + bool" where
  \<comment> \<open>\<open>a < b\<close>: exact across the types; a NaN makes a float comparison False and makes
      a comparison that involves a Decimal raise\<close>
  "py_lt a b =
     (if (is_Decimal a \<or> is_Decimal b) \<and> (value_of a = NaN \<or> value_of b = NaN)
      then Inl InvalidOperation
      else Inr (xless (value_of a) (value_of b)))"

definition py_gt :: "pynum \<Rightarrow> pynum \<Rightarrow> pyerror + bool" where
  "py_gt a b = py_lt b a"

definition py_le :: "pynum \<Rightarrow> pynum \<Rightarrow> pyerror + bool" where
  "py_le a b =
     (if (is_Decimal a \<or> is_Decimal b) \<and> (value_of a = NaN \<or> value_of b = NaN)
      then Inl InvalidOperation
      else Inr (value_of a \<noteq> NaN \<and> value_of b \<noteq> NaN \<and> \<not> xless (value_of b) (value_of a)))"

definition py_max :: "pynum \<Rightarrow> pynum \<Rightarrow> pyerror + pynum" where
  \<comment> \<open>the builtin \<open>max(a, b)\<close>: \<open>b\<close> replaces \<open>a\<close> when \<open>b > a\<close>\<close>
  "py_max a b = bindE (py_gt b a) (\<lambda>c. Inr (if c then b else a))"

definition py_min :: "pynum \<Rightarrow> pynum \<Rightarrow> pyerror + pynum" where
  \<comment> \<open>the builtin \<open>min(a, b)\<close>: \<open>b\<close> replaces \<open>a\<close> when \<open>b < a\<close>\<close>
  "py_min a b = bindE (py_lt b a) (\<lambda>c. Inr (if c then b else a))"

definition Decimal :: "pynum \<Rightarrow> pynum" where
  \<comment> \<open>\<open>Decimal(x)\<close> is exact for an int, a float and a Decimal\<close>
  "Decimal x = PyDecimal (value_of x)"

section \<open>The strategy: class \<open>VolatilitySpreadMaker\<close>\<close>

text \<open>
  The enumerations and the order candidate are the host framework's
  (\<open>hummingbot.core.data_type\<close>); the strategy only reads and builds them.
\<close>

datatype TradeType = BUY | SELL | RANGE

datatype OrderType = MARKET | LIMIT | LIMIT_MAKER

datatype PriceType = BestBid | BestAsk | MidPrice | LastTrade

record OrderCandidate =
  trading_pair :: string
  is_maker :: bool
  order_type :: OrderType
  order_side :: TradeType
  amount :: pynum
  price :: pynum

text \<open>The class attributes. The three spread parameters are finite floats.\<close>

record config =
  cfg_trading_pair :: string
  exchange :: string
  price_source :: PriceType
  order_amount :: pynum
  order_refresh_time :: int
  atr_window :: int
  atr_multiplier :: rat
  min_spread :: rat
  max_spread :: rat

definition VolatilitySpreadMaker :: config where
  \<comment> \<open>the float literals \<open>1.2\<close>, \<open>0.0003\<close> and \<open>0.002\<close> denote the doubles nearest to them\<close>
  "VolatilitySpreadMaker =
     \<lparr> cfg_trading_pair = ''ETH-USDT'',
       exchange = ''binance_paper_trade'',
       price_source = MidPrice,
       order_amount = PyDecimal (Fin (1 / 100)),
       order_refresh_time = 15,
       atr_window = 30,
       atr_multiplier = 5404319552844595 / 4503599627370496,
       min_spread = 5534023222112865 / 18446744073709551616,
       max_spread = 1152921504606847 / 576460752303423488 \<rparr>"

text \<open>
  What the host answers during one tick: the clock (a float), the readiness flag of the
  candle feed, the Decimal that \<open>get_price_by_type\<close> returns, the last entry of the ATR
  column of the candle frame (a float, or \<open>None\<close>), the active orders (trading pair
  and client order id) and the budget checker's \<open>adjust_candidates\<close>.
\<close>

record host =
  current_timestamp :: xnum
  candles_ready :: bool
  get_price_by_type :: xnum
  last_atr :: "xnum option"
  get_active_orders :: "(string \<times> string) list"
  adjust_candidates :: "OrderCandidate list \<Rightarrow> OrderCandidate list"

text \<open>
  The strategy's own state is \<open>create_timestamp\<close>. The calls it makes into the host
  (\<open>cancel\<close>, \<open>buy\<close>, \<open>sell\<close>) are recorded in order.
\<close>

datatype host_call =
    Cancel string string string
  | Buy string string pynum OrderType pynum
  | Sell string string pynum OrderType pynum

record strategy =
  create_timestamp :: pynum
  calls :: "host_call list"

definition initial :: strategy where
  "initial = \<lparr> create_timestamp = PyInt 0, calls = [] \<rparr>"

definition cancel :: "strategy \<Rightarrow> string \<Rightarrow> string \<Rightarrow> string \<Rightarrow> strategy" where
  "cancel s connector_name pair order_id =
     s\<lparr>calls := calls s @ [Cancel connector_name pair order_id]\<rparr>"

definition buy :: "strategy \<Rightarrow> string \<Rightarrow> string \<Rightarrow> pynum \<Rightarrow> OrderType \<Rightarrow> pynum \<Rightarrow> strategy" where
  "buy s connector_name pair amt ot pr =
     s\<lparr>calls := calls s @ [Buy connector_name pair amt ot pr]\<rparr>"

definition sell :: "strategy \<Rightarrow> string \<Rightarrow> string \<Rightarrow> pynum \<Rightarrow> OrderType \<Rightarrow> pynum \<Rightarrow> strategy" where
  "sell s connector_name pair amt ot pr =
     s\<lparr>calls := calls s @ [Sell connector_name pair amt ot pr]\<rparr>"

subsection \<open>\<open>create_proposal\<close>\<close>

definition dynamic_spread :: "config \<Rightarrow> host \<Rightarrow> pyerror + pynum" where
  \<comment> \<open>lines 69 to 78: the local variable \<open>dynamic_spread\<close>\<close>
  "dynamic_spread cfg h =
     (let ref_price = PyDecimal (get_price_by_type h);
          fallback = py_arith Mul ref_price (PyFloat (Fin (min_spread cfg)))
      in bindE (case last_atr h of
                  None \<Rightarrow> fallback
                | Some a \<Rightarrow>
                    bindE (py_le (PyFloat a) (PyInt 0))
                      (\<lambda>c. if c then fallback else Inr (PyFloat a)))
          (\<lambda>atr. bindE (py_arith Mul atr (PyFloat (Fin (atr_multiplier cfg))))
          (\<lambda>scaled. bindE (py_arith Div (Decimal scaled) ref_price)
          (\<lambda>raw. bindE (py_max raw (PyFloat (Fin (min_spread cfg))))
          (\<lambda>m. py_min m (PyFloat (Fin (max_spread cfg))))))))"

definition create_proposal :: "config \<Rightarrow> host \<Rightarrow> pyerror + OrderCandidate list" where
  "create_proposal cfg h =
     (let ref_price = PyDecimal (get_price_by_type h)
      in bindE (dynamic_spread cfg h)
          (\<lambda>spread. bindE (py_arith Sub (PyInt 1) spread)
          (\<lambda>lo. bindE (py_arith Mul ref_price (Decimal lo))
          (\<lambda>bid_price. bindE (py_arith Add (PyInt 1) spread)
          (\<lambda>hi. bindE (py_arith Mul ref_price (Decimal hi))
          (\<lambda>ask_price.
             Inr [\<lparr> trading_pair = cfg_trading_pair cfg, is_maker = True,
                     order_type = LIMIT, order_side = BUY,
                     amount = order_amount cfg, price = bid_price \<rparr>,
                  \<lparr> trading_pair = cfg_trading_pair cfg, is_maker = True,
                     order_type = LIMIT, order_side = SELL,
                     amount = order_amount cfg, price = ask_price \<rparr>]))))))"

subsection \<open>Orders and the tick\<close>

definition adjust_proposal_to_budget :: "host \<Rightarrow> OrderCandidate list \<Rightarrow> OrderCandidate list" where
  "adjust_proposal_to_budget h proposal = adjust_candidates h proposal"

definition place_order :: "strategy \<Rightarrow> string \<Rightarrow> OrderCandidate \<Rightarrow> strategy" where
  "place_order s connector_name order =
     (if order_side order = SELL
      then sell s connector_name (trading_pair order) (amount order) (order_type order) (price order)
      else if order_side order = BUY
      then buy s connector_name (trading_pair order) (amount order) (order_type order) (price order)
      else s)"

fun place_orders :: "config \<Rightarrow> strategy \<Rightarrow> OrderCandidate list \<Rightarrow> strategy" where
  "place_orders cfg s [] = s"
| "place_orders cfg s (order # proposal) =
     place_orders cfg (place_order s (exchange cfg) order) proposal"

fun cancel_orders :: "config \<Rightarrow> strategy \<Rightarrow> (string \<times> string) list \<Rightarrow> strategy" where
  "cancel_orders cfg s [] = s"
| "cancel_orders cfg s ((pair, order_id) # orders) =
     cancel_orders cfg (cancel s (exchange cfg) pair order_id) orders"

definition cancel_all_orders :: "config \<Rightarrow> host \<Rightarrow> strategy \<Rightarrow> strategy" where
  "cancel_all_orders cfg h s = cancel_orders cfg s (get_active_orders h)"

definition on_tick :: "config \<Rightarrow> host \<Rightarrow> strategy \<Rightarrow> strategy \<times> pyerror option" where
  \<comment> \<open>the state when \<open>on_tick\<close> is left, and the exception that left it, if any\<close>
  "on_tick cfg h s =
     (case py_le (create_timestamp s) (PyFloat (current_timestamp h)) of
        Inl e \<Rightarrow> (s, Some e)
      | Inr False \<Rightarrow> (s, None)
      | Inr True \<Rightarrow>
          (if \<not> candles_ready h then (s, None)
           else
             (let s1 = cancel_all_orders cfg h s
              in (case create_proposal cfg h of
                    Inl e \<Rightarrow> (s1, Some e)
                  | Inr proposal \<Rightarrow>
                      (let adjusted = adjust_proposal_to_budget h proposal;
                           s2 = place_orders cfg s1 adjusted
                       in (case py_arith Add (PyFloat (current_timestamp h))
                                   (PyInt (order_refresh_time cfg)) of
                             Inl e \<Rightarrow> (s2, Some e)
                           | Inr t \<Rightarrow> (s2 \<lparr> create_timestamp := t \<rparr>, None)))))))"

section \<open>Example inputs\<close>

text \<open>
  A tick of the host at time 1000 with a ready candle feed, the reference price
  \<open>Decimal("2000")\<close>, the ATR \<open>0.8\<close> (the double nearest to it), one active order and a
  budget checker that lets every candidate through.
\<close>

definition example_host :: host where
  "example_host =
     \<lparr> current_timestamp = Fin 1000,
       candles_ready = True,
       get_price_by_type = Fin 2000,
       last_atr = Some (Fin (3602879701896397 / 4503599627370496)),
       get_active_orders = [(''ETH-USDT'', ''order-1'')],
       adjust_candidates = (\<lambda>proposal. proposal) \<rparr>"

definition example_bid :: rat where
  "example_bid = 1999040000000000000035527137 / 1000000000000000000000000"

definition example_ask :: rat where
  "example_ask = 2000959999999999999964472864 / 1000000000000000000000000"

definition example_spread :: rat where
  "example_spread = 4799999999999999822364316060 / 10000000000000000000000000000000"

definition example_proposal :: "OrderCandidate list" where
  "example_proposal =
     [\<lparr> trading_pair = ''ETH-USDT'', is_maker = True, order_type = LIMIT, order_side = BUY,
         amount = PyDecimal (Fin (1 / 100)), price = PyDecimal (Fin example_bid) \<rparr>,
      \<lparr> trading_pair = ''ETH-USDT'', is_maker = True, order_type = LIMIT, order_side = SELL,
         amount = PyDecimal (Fin (1 / 100)), price = PyDecimal (Fin example_ask) \<rparr>]"

definition example_after :: strategy where
  \<comment> \<open>the strategy after the first tick at \<open>example_host\<close>\<close>
  "example_after =
     \<lparr> create_timestamp = PyFloat (Fin 1015),
       calls =
         [Cancel ''binance_paper_trade'' ''ETH-USDT'' ''order-1'',
          Buy ''binance_paper_trade'' ''ETH-USDT'' (PyDecimal (Fin (1 / 100))) LIMIT
            (PyDecimal (Fin example_bid)),
          Sell ''binance_paper_trade'' ''ETH-USDT'' (PyDecimal (Fin (1 / 100))) LIMIT
            (PyDecimal (Fin example_ask))] \<rparr>"

definition waiting :: strategy where
  \<comment> \<open>a strategy in the middle of a refresh interval: the next cycle is due at 1015\<close>
  "waiting = \<lparr> create_timestamp = PyFloat (Fin 1015), calls = [] \<rparr>"

definition swapped_config :: config where
  \<comment> \<open>a misconfiguration: \<open>min_spread = 0.002\<close> above \<open>max_spread = 0.0003\<close>\<close>
  "swapped_config =
     VolatilitySpreadMaker
       \<lparr> min_spread := 1152921504606847 / 576460752303423488,
         max_spread := 5534023222112865 / 18446744073709551616 \<rparr>"

definition negative_host :: host where
  "negative_host = example_host \<lparr> get_price_by_type := Fin (- 2000) \<rparr>"

definition negative_proposal :: "OrderCandidate list" where
  "negative_proposal =
     [\<lparr> trading_pair = ''ETH-USDT'', is_maker = True, order_type = LIMIT, order_side = BUY,
         amount = PyDecimal (Fin (1 / 100)),
         price = PyDecimal (Fin (- 1999400000000000066080474426 / 1000000000000000000000000)) \<rparr>,
      \<lparr> trading_pair = ''ETH-USDT'', is_maker = True, order_type = LIMIT, order_side = SELL,
         amount = PyDecimal (Fin (1 / 100)),
         price = PyDecimal (Fin (- 2000599999999999933919525574 / 1000000000000000000000000)) \<rparr>]"

definition tiny_config :: config where
  \<comment> \<open>both spread bounds set to the float \<open>2 ** -60\<close>\<close>
  "tiny_config =
     VolatilitySpreadMaker
       \<lparr> min_spread := 1 / 1152921504606846976, max_spread := 1 / 1152921504606846976 \<rparr>"

definition tiny_proposal :: "OrderCandidate list" where
  "tiny_proposal =
     [\<lparr> trading_pair = ''ETH-USDT'', is_maker = True, order_type = LIMIT, order_side = BUY,
         amount = PyDecimal (Fin (1 / 100)), price = PyDecimal (Fin 2000) \<rparr>,
      \<lparr> trading_pair = ''ETH-USDT'', is_maker = True, order_type = LIMIT, order_side = SELL,
         amount = PyDecimal (Fin (1 / 100)), price = PyDecimal (Fin 2000) \<rparr>]"

section \<open>Placing orders\<close>

text \<open>
  C10. \<open>place_order\<close> submits a sell for an order whose side is \<open>SELL\<close> and a buy for
  an order whose side is \<open>BUY\<close>; for an order whose side is neither it makes no call
  into the host and returns normally, the strategy unchanged.
\<close>

theorem place_order_by_side:
  "(order_side order = SELL \<longrightarrow>
      place_order s c order =
        sell s c (trading_pair order) (amount order) (order_type order) (price order))
   \<and> (order_side order = BUY \<longrightarrow>
      place_order s c order =
        buy s c (trading_pair order) (amount order) (order_type order) (price order))
   \<and> (order_side order \<noteq> SELL \<and> order_side order \<noteq> BUY \<longrightarrow> place_order s c order = s)"
  by (simp add: place_order_def)

theorem place_order_by_side_witness:
  "calls (place_order initial ''x''
      \<lparr> trading_pair = ''ETH-USDT'', is_maker = True, order_type = LIMIT, order_side = SELL,
        amount = PyInt 1, price = PyInt 7 \<rparr>) = [Sell ''x'' ''ETH-USDT'' (PyInt 1) LIMIT (PyInt 7)]
   \<and> calls (place_order initial ''x''
      \<lparr> trading_pair = ''ETH-USDT'', is_maker = True, order_type = LIMIT, order_side = BUY,
        amount = PyInt 1, price = PyInt 5 \<rparr>) = [Buy ''x'' ''ETH-USDT'' (PyInt 1) LIMIT (PyInt 5)]
   \<and> place_order initial ''x''
      \<lparr> trading_pair = ''ETH-USDT'', is_maker = True, order_type = LIMIT, order_side = RANGE,
        amount = PyInt 1, price = PyInt 5 \<rparr> = initial"
  using
    place_order_by_side [of "\<lparr> trading_pair = ''ETH-USDT'', is_maker = True, order_type = LIMIT,
      order_side = SELL, amount = PyInt 1, price = PyInt 7 \<rparr>" initial "''x''"]
    place_order_by_side [of "\<lparr> trading_pair = ''ETH-USDT'', is_maker = True, order_type = LIMIT,
      order_side = BUY, amount = PyInt 1, price = PyInt 5 \<rparr>" initial "''x''"]
    place_order_by_side [of "\<lparr> trading_pair = ''ETH-USDT'', is_maker = True, order_type = LIMIT,
      order_side = RANGE, amount = PyInt 1, price = PyInt 5 \<rparr>" initial "''x''"]
  by (simp add: initial_def sell_def buy_def)

section \<open>The tick\<close>

lemma on_tick_gate_closed:
  "py_le (create_timestamp s) (PyFloat (current_timestamp h)) = Inr False \<Longrightarrow>
   on_tick cfg h s = (s, None)"
  by (simp add: on_tick_def)

lemma on_tick_not_ready:
  "\<not> candles_ready h \<Longrightarrow> fst (on_tick cfg h s) = s"
  by (simp add: on_tick_def split: sum.splits bool.splits)

lemma on_tick_cycle:
  assumes "py_le (create_timestamp s) (PyFloat (current_timestamp h)) = Inr True"
      and "candles_ready h"
  shows "on_tick cfg h s =
     (case create_proposal cfg h of
        Inl e \<Rightarrow> (cancel_all_orders cfg h s, Some e)
      | Inr proposal \<Rightarrow>
          (case py_arith Add (PyFloat (current_timestamp h)) (PyInt (order_refresh_time cfg)) of
             Inl e \<Rightarrow>
               (place_orders cfg (cancel_all_orders cfg h s)
                  (adjust_proposal_to_budget h proposal), Some e)
           | Inr t \<Rightarrow>
               ((place_orders cfg (cancel_all_orders cfg h s)
                  (adjust_proposal_to_budget h proposal))\<lparr>create_timestamp := t\<rparr>, None)))"
  using assms by (simp add: on_tick_def Let_def split: sum.splits)

lemma float_plus_int:
  "py_arith Add (PyFloat a) (PyInt n) = Inr t \<Longrightarrow> \<exists>c. t = PyFloat c"
  by (auto simp: bindE_def split: sum.splits)

lemma py_le_floats:
  "py_le (PyFloat a) (PyFloat b) = Inr (a \<noteq> NaN \<and> b \<noteq> NaN \<and> \<not> xless b a)"
  by (simp add: py_le_def)

lemma xless_not_NaN: "xless a c \<Longrightarrow> a \<noteq> NaN \<and> c \<noteq> NaN"
  by (cases a; cases c) auto

lemma gate_stays_open:
  assumes "py_le c (PyFloat t) = Inr True" and "t' \<noteq> NaN" and "\<not> xless t' t"
  shows "py_le c (PyFloat t') = Inr True"
  using assms
  by (cases "value_of c"; cases t; cases t')
     (auto simp: py_le_def split: if_splits)

section \<open>The spread\<close>

lemma fallback_raises:
  assumes "last_atr h = None \<or> (\<exists>a. last_atr h = Some (Fin a) \<and> a \<le> 0)"
  shows "dynamic_spread cfg h = Inl TypeError"
  using assms by (auto simp: dynamic_spread_def bindE_def py_le_def Let_def)

lemma create_proposal_raises:
  "dynamic_spread cfg h = Inl e \<Longrightarrow> create_proposal cfg h = Inl e"
  by (simp add: create_proposal_def bindE_def)

lemma decimal_div_type:
  "py_arith Div (Decimal x) (PyDecimal r) = Inr raw \<Longrightarrow> \<exists>v. raw = PyDecimal v"
  by (auto simp: Decimal_def bindE_def split: sum.splits)

lemma clamp_cases:
  assumes "py_max (PyDecimal v) (PyFloat (Fin lo)) = Inr m"
      and "py_min m (PyFloat (Fin hi)) = Inr s"
  shows "\<exists>\<sigma>. value_of s = Fin \<sigma> \<and> \<sigma> \<le> hi \<and> (lo \<le> hi \<longrightarrow> lo \<le> \<sigma>)
           \<and> (hi < lo \<longrightarrow> s = PyFloat (Fin hi))"
  using assms
  by (cases v)
     (auto simp: py_max_def py_min_def py_gt_def py_lt_def bindE_def split: if_splits)

lemma dynamic_spread_clamp:
  assumes "dynamic_spread cfg h = Inr s"
  shows "\<exists>\<sigma>. value_of s = Fin \<sigma> \<and> \<sigma> \<le> max_spread cfg
           \<and> (min_spread cfg \<le> max_spread cfg \<longrightarrow> min_spread cfg \<le> \<sigma>)
           \<and> (max_spread cfg < min_spread cfg \<longrightarrow> s = PyFloat (Fin (max_spread cfg)))"
proof -
  from assms obtain scaled raw m where
    raw: "py_arith Div (Decimal scaled) (PyDecimal (get_price_by_type h)) = Inr raw"
    and m: "py_max raw (PyFloat (Fin (min_spread cfg))) = Inr m"
    and s: "py_min m (PyFloat (Fin (max_spread cfg))) = Inr s"
    unfolding dynamic_spread_def Let_def bindE_def
    by (auto split: sum.splits)
  from decimal_div_type [OF raw] obtain v where "raw = PyDecimal v" ..
  with m s show ?thesis
    using clamp_cases by blast
qed

lemma xmul_no_division: "xmul a b \<noteq> ByZero \<and> xmul a b \<noteq> Undefined"
  by (cases a; cases b) auto

lemma float_mul_total: "\<exists>r. float_op Mul a (Fin m) = Inr r"
  using xmul_no_division [of a "Fin m"] by (simp add: float_op_def split: xres.splits)

lemma nan_price_raises:
  assumes "get_price_by_type h = NaN"
  shows "\<exists>e. dynamic_spread cfg h = Inl e"
proof (cases "\<exists>a. last_atr h = Some a \<and> py_le (PyFloat a) (PyInt 0) = Inr False")
  case True
  then obtain a where a: "last_atr h = Some a" "py_le (PyFloat a) (PyInt 0) = Inr False"
    by blast
  obtain r where r: "float_op Mul a (Fin (atr_multiplier cfg)) = Inr r"
    using float_mul_total by blast
  have "dec_op Div r NaN = Inr NaN"
    by (cases r) (simp_all add: dec_op_def)
  with a r assms show ?thesis
    by (simp add: dynamic_spread_def bindE_def Decimal_def py_max_def py_gt_def py_lt_def)
next
  case False
  then show ?thesis
    by (cases "last_atr h")
       (auto simp: dynamic_spread_def bindE_def py_le_def Let_def)
qed

lemma zero_price_raises:
  assumes "get_price_by_type h = Fin 0"
      and "last_atr h = None
           \<or> (\<exists>a p. last_atr h = Some (Fin a) \<and> float_of_rat (a * atr_multiplier cfg) = Fin p)"
  shows "\<exists>e. dynamic_spread cfg h = Inl e"
  using assms
  by (auto simp: dynamic_spread_def bindE_def py_le_def Let_def Decimal_def float_op_def
        dec_op_def)

section \<open>Rounding errors\<close>

lemma int_div_bounds:
  fixes b n :: int
  assumes "0 < b"
  shows "b * (n div b) \<le> n" and "n < b * (n div b) + b"
proof -
  have "b * (n div b) + n mod b = n"
    by simp
  moreover have "0 \<le> n mod b" and "n mod b < b"
    using assms by simp_all
  ultimately show "b * (n div b) \<le> n" and "n < b * (n div b) + b"
    by linarith+
qed

lemma idigits_bounds:
  "0 < n \<Longrightarrow> 1 < b \<Longrightarrow>
   0 < idigits b n \<and> b ^ nat (idigits b n - 1) \<le> n \<and> n < b ^ nat (idigits b n)"
proof (induction b n rule: idigits.induct)
  case (1 b n)
  show ?case
  proof (cases "n div b = 0")
    case True
    with 1(2,3) have "n < b"
      using int_div_bounds(2) [of b n] by simp
    moreover have "idigits b n = 1"
      using 1(2,3) True by (simp add: idigits.simps [of b n] idigits.simps [of b 0])
    ultimately show ?thesis
      using 1(2) by simp
  next
    case False
    with 1(2,3) have pos: "0 < n div b"
      using pos_imp_zdiv_nonneg_iff [of b n] by simp
    from 1(1) [OF _ pos 1(3)] 1(2,3)
    have ih: "0 < idigits b (n div b)"
      "b ^ nat (idigits b (n div b) - 1) \<le> n div b"
      "n div b < b ^ nat (idigits b (n div b))"
      by auto
    have eq: "idigits b n = 1 + idigits b (n div b)"
      using 1(2,3) by (simp add: idigits.simps [of b n])
    have nat1: "nat (idigits b n - 1) = Suc (nat (idigits b (n div b) - 1))"
      using eq ih(1) by simp
    have nat2: "nat (idigits b n) = Suc (nat (idigits b (n div b)))"
      using eq ih(1) by simp
    have "b * b ^ nat (idigits b (n div b) - 1) \<le> b * (n div b)"
      using ih(2) 1(3) by simp
    also have "\<dots> \<le> n"
      using 1(3) int_div_bounds(1) [of b n] by simp
    finally have lower: "b ^ nat (idigits b n - 1) \<le> n"
      by (simp add: nat1)
    have "n div b + 1 \<le> b ^ nat (idigits b (n div b))"
      using ih(3) by simp
    then have "b * (n div b + 1) \<le> b * b ^ nat (idigits b (n div b))"
      using 1(3) by simp
    moreover have "n < b * (n div b + 1)"
      using 1(3) int_div_bounds(2) [of b n] by (simp add: algebra_simps)
    ultimately have upper: "n < b ^ nat (idigits b n)"
      by (simp add: nat2)
    from eq ih(1) lower upper show ?thesis
      by simp
  qed
qed

lemma of_int_idigits:
  assumes "0 < n" "1 < b"
  shows "power_int (of_int b :: rat) (idigits b n - 1) \<le> of_int n"
    and "(of_int n :: rat) < power_int (of_int b) (idigits b n)"
proof -
  from idigits_bounds [OF assms]
  have d: "0 < idigits b n" and lo: "b ^ nat (idigits b n - 1) \<le> n"
    and hi: "n < b ^ nat (idigits b n)"
    by auto
  have "power_int (of_int b :: rat) (idigits b n - 1) = of_int (b ^ nat (idigits b n - 1))"
    using d by (simp add: power_int_nonneg_exp)
  also have "\<dots> \<le> of_int n"
    using lo by (simp only: of_int_le_iff)
  finally show "power_int (of_int b :: rat) (idigits b n - 1) \<le> of_int n" .
  have "(of_int n :: rat) < of_int (b ^ nat (idigits b n))"
    using hi by (simp only: of_int_less_iff)
  also have "\<dots> = power_int (of_int b) (idigits b n)"
    using d by (simp add: power_int_nonneg_exp)
  finally show "(of_int n :: rat) < power_int (of_int b) (idigits b n)" .
qed

lemma ilog_bounds:
  assumes "x \<noteq> 0" "1 < b"
  shows "power_int (of_int b) (ilog b x) \<le> \<bar>x\<bar>"
    and "\<bar>x\<bar> < power_int (of_int b) (ilog b x + 1)"
proof -
  define B :: rat where "B = of_int b"
  have B: "1 < B" "0 < B" "B \<noteq> 0"
    using assms(2) by (simp_all add: B_def)
  obtain n d where q: "quotient_of \<bar>x\<bar> = (n, d)"
    by (cases "quotient_of \<bar>x\<bar>")
  then have d: "0 < d" and x: "\<bar>x\<bar> = of_int n / of_int d"
    by (auto dest: quotient_of_denom_pos quotient_of_div)
  have n: "0 < n"
  proof -
    have "0 < (of_int n :: rat) / of_int d"
      using assms(1) x by simp
    with d show ?thesis
      by (simp add: zero_less_divide_iff)
  qed
  define k where "k = idigits b n - idigits b d"
  have il: "ilog b x = (if power_int B k \<le> \<bar>x\<bar> then k else k - 1)"
    by (simp add: ilog_def q k_def B_def Let_def)
  note nb = of_int_idigits [OF n assms(2), folded B_def]
  note db = of_int_idigits [OF d assms(2), folded B_def]
  have pos: "\<And>e. 0 < power_int B e"
    using B by simp
  have up: "\<bar>x\<bar> < power_int B (k + 1)"
  proof -
    have "\<bar>x\<bar> < power_int B (idigits b n) / of_int d"
      unfolding x using nb(2) d by (simp add: divide_strict_right_mono)
    also have "\<dots> \<le> power_int B (idigits b n) / power_int B (idigits b d - 1)"
      using db(1) pos d by (intro divide_left_mono) (simp_all add: less_imp_le)
    also have "\<dots> = power_int B (k + 1)"
      using B by (simp add: k_def power_int_diff [symmetric] algebra_simps)
    finally show ?thesis .
  qed
  have low: "power_int B (k - 1) \<le> \<bar>x\<bar>"
  proof -
    have "power_int B (k - 1) = power_int B (idigits b n - 1) / power_int B (idigits b d)"
      using B by (simp add: k_def power_int_diff [symmetric] algebra_simps)
    also have "\<dots> \<le> of_int n / power_int B (idigits b d)"
      using nb(1) pos by (simp add: divide_right_mono less_imp_le)
    also have "\<dots> \<le> of_int n / of_int d"
      using db(2) d n by (intro divide_left_mono) (simp_all add: less_imp_le)
    finally show ?thesis
      by (simp add: x)
  qed
  show "power_int (of_int b) (ilog b x) \<le> \<bar>x\<bar>"
    using low by (simp add: il B_def [symmetric])
  show "\<bar>x\<bar> < power_int (of_int b) (ilog b x + 1)"
    using up by (auto simp: il B_def [symmetric] not_le)
qed

lemma round_half_even_error: "\<bar>of_int (round_half_even q) - q\<bar> \<le> 1 / 2"
proof -
  have "of_int \<lfloor>q\<rfloor> \<le> q" and "q < of_int \<lfloor>q\<rfloor> + 1"
    by linarith+
  then show ?thesis
    by (auto simp: round_half_even_def Let_def abs_le_iff)
qed

lemma round_at_error:
  assumes "1 < b"
  shows "\<bar>round_at b e x - x\<bar> \<le> power_int (of_int b) e / 2"
proof -
  define u :: rat where "u = power_int (of_int b) e"
  have u: "0 < u"
    using assms by (simp add: u_def)
  have "round_at b e x - x = (of_int (round_half_even (x / u)) - x / u) * u"
    using u by (simp add: round_at_def u_def [symmetric] algebra_simps)
  then have "\<bar>round_at b e x - x\<bar> = \<bar>of_int (round_half_even (x / u)) - x / u\<bar> * u"
    using u by (simp add: abs_mult)
  also have "\<dots> \<le> (1 / 2) * u"
    using round_half_even_error [of "x / u"] u by (intro mult_right_mono) simp_all
  finally show ?thesis
    by (simp add: u_def)
qed

lemma ilog_less:
  assumes "x \<noteq> 0" "1 < b" "0 \<le> n" "\<bar>x\<bar> < power_int (of_int b) n"
  shows "ilog b x < n"
proof -
  have "power_int (of_int b :: rat) (ilog b x) < power_int (of_int b) n"
    using ilog_bounds(1) [OF assms(1,2)] assms(4) by (rule le_less_trans)
  moreover have "1 < (of_int b :: rat)"
    using assms(2) by simp
  ultimately show ?thesis
    using assms(3) power_int_le_imp_less_exp [of "of_int b :: rat" "ilog b x" n] by blast
qed

lemma ilog_ge:
  assumes "1 < b" "power_int (of_int b) n \<le> \<bar>x\<bar>"
  shows "n \<le> ilog b x"
proof (rule ccontr)
  assume "\<not> n \<le> ilog b x"
  then have le: "ilog b x + 1 \<le> n"
    by simp
  have b: "1 \<le> (of_int b :: rat)"
    using assms(1) by simp
  have "0 < power_int (of_int b :: rat) n"
    using assms(1) by simp
  with assms(2) have "x \<noteq> 0"
    by auto
  from ilog_bounds(2) [OF this assms(1)]
  have "\<bar>x\<bar> < power_int (of_int b) (ilog b x + 1)" .
  also have "\<dots> \<le> power_int (of_int b) n"
    using le b by (rule power_int_increasing)
  finally show False
    using assms(2) by simp
qed

lemma round_at_error_le:
  assumes "1 < b" "e \<le> e'"
  shows "\<bar>round_at b e x - x\<bar> \<le> power_int (of_int b) e' / 2"
proof -
  have "power_int (of_int b :: rat) e \<le> power_int (of_int b) e'"
    using assms by (intro power_int_increasing) simp_all
  with round_at_error [OF assms(1), of e x] show ?thesis
    by simp
qed

lemma float_round_near_one:
  assumes "\<bar>x\<bar> < 2"
  shows "\<bar>float_round x - x\<bar> \<le> 1 / 2 ^ 53"
proof (cases "x = 0")
  case True
  then show ?thesis
    by (simp add: float_round_def)
next
  case False
  have "ilog 2 x < 1"
    using False assms by (intro ilog_less) simp_all
  then have "max (ilog 2 x - 52) (- 1074) \<le> - 52"
    by simp
  from round_at_error_le [OF _ this, of 2 x] False show ?thesis
    by (simp add: float_round_def power_int_minus_divide)
qed

lemma dec_round_near_one:
  assumes "\<bar>x\<bar> < 10"
  shows "\<bar>dec_round x - x\<bar> \<le> 1 / (2 * 10 ^ 27)"
proof (cases "x = 0")
  case True
  then show ?thesis
    by (simp add: dec_round_def)
next
  case False
  have "ilog 10 x < 1"
    using False assms by (intro ilog_less) simp_all
  then have "max (ilog 10 x - 27) (- 1000026) \<le> - 27"
    by simp
  from round_at_error_le [OF _ this, of 10 x] False show ?thesis
    by (simp add: dec_round_def power_int_minus_divide)
qed

lemma float_of_rat_near_one:
  assumes "\<bar>x\<bar> < 2"
  shows "float_of_rat x = Fin (float_round x)"
proof -
  have "\<bar>float_round x - x\<bar> \<le> 1"
    using float_round_near_one [OF assms] by (rule order_trans) simp
  with assms have r: "\<bar>float_round x\<bar> < 4"
    by linarith
  have "ilog 2 (float_round x) < 2" if "float_round x \<noteq> 0"
    using that r by (intro ilog_less) simp_all
  then show ?thesis
    by (auto simp: float_of_rat_def Let_def)
qed

lemma dec_of_rat_near_one:
  assumes "\<bar>x\<bar> < 10"
  shows "dec_of_rat x = Inr (Fin (dec_round x))"
proof -
  have "\<bar>dec_round x - x\<bar> \<le> 1"
    using dec_round_near_one [OF assms] by (rule order_trans) simp
  with assms have r: "\<bar>dec_round x\<bar> < 100"
    by linarith
  have "ilog 10 (dec_round x) < 2" if "dec_round x \<noteq> 0"
    using that r by (intro ilog_less) simp_all
  then show ?thesis
    by (auto simp: dec_of_rat_def Let_def)
qed

lemma dec_of_rat_value: "dec_of_rat y = Inr v \<Longrightarrow> v = Fin (dec_round y)"
  by (auto simp: dec_of_rat_def Let_def split: if_splits)

lemma smallest_normal_pos: "0 < smallest_normal"
  unfolding smallest_normal_def by (rule zero_less_power_int) simp

lemma smallest_normal_le_one: "smallest_normal \<le> 1"
proof -
  have "power_int (10::rat) (- 999999) \<le> power_int 10 0"
    by (rule power_int_increasing) simp_all
  also have "power_int (10::rat) 0 = 1"
    by simp
  finally show ?thesis
    unfolding smallest_normal_def .
qed

lemma dec_round_relative:
  assumes "smallest_normal \<le> \<bar>y\<bar>"
  shows "\<bar>dec_round y - y\<bar> \<le> \<bar>y\<bar> / (2 * 10 ^ 27)"
proof -
  have y0: "y \<noteq> 0"
    using assms smallest_normal_pos by auto
  have big: "power_int (of_int 10) (- 999999) \<le> \<bar>y\<bar>"
    using assms unfolding smallest_normal_def by (simp only: of_int_numeral)
  have "- 999999 \<le> ilog 10 y"
    by (rule ilog_ge [OF _ big]) simp
  then have e: "max (ilog 10 y - 27) (- 1000026) = ilog 10 y - 27"
    by simp
  have "\<bar>dec_round y - y\<bar> \<le> power_int 10 (ilog 10 y - 27) / 2"
    using round_at_error [of 10 "ilog 10 y - 27" y] y0 by (simp add: dec_round_def e)
  also have "power_int (10::rat) (ilog 10 y - 27) = power_int 10 (ilog 10 y) / 10 ^ 27"
    by (simp add: power_int_diff)
  also have "power_int 10 (ilog 10 y) / 10 ^ 27 / 2 \<le> \<bar>y\<bar> / 10 ^ 27 / 2"
    using ilog_bounds(1) [OF y0, of 10] by (simp add: divide_right_mono)
  finally show ?thesis
    by simp
qed

lemma dynamic_spread_kind:
  assumes "dynamic_spread cfg h = Inr s"
  shows "s = PyFloat (value_of s) \<or> s = PyDecimal (value_of s)"
proof -
  from assms obtain scaled raw m where
    raw: "py_arith Div (Decimal scaled) (PyDecimal (get_price_by_type h)) = Inr raw"
    and m: "py_max raw (PyFloat (Fin (min_spread cfg))) = Inr m"
    and s: "py_min m (PyFloat (Fin (max_spread cfg))) = Inr s"
    unfolding dynamic_spread_def Let_def bindE_def
    by (auto split: sum.splits)
  from decimal_div_type [OF raw] obtain v where "raw = PyDecimal v" ..
  with m s show ?thesis
    by (auto simp: py_max_def py_min_def bindE_def split: sum.splits if_splits)
qed

lemma int_one_to_float: "int_to_float 1 = Inr (Fin 1)"
  by code_simp

lemma one_minus:
  assumes "s = PyFloat (Fin \<sigma>) \<or> s = PyDecimal (Fin \<sigma>)" and "\<bar>\<sigma>\<bar> \<le> 1 / 2"
  shows "\<exists>c. bindE (py_arith Sub (PyInt 1) s) (\<lambda>lo. Inr (Decimal lo)) = Inr (PyDecimal (Fin c))
           \<and> \<bar>c - (1 - \<sigma>)\<bar> \<le> 1 / 2 ^ 53"
proof -
  have small: "\<bar>1 - \<sigma>\<bar> < 2" "\<bar>1 - \<sigma>\<bar> < 10"
    using assms(2) by linarith+
  from assms(1) show ?thesis
  proof
    assume "s = PyFloat (Fin \<sigma>)"
    then have "bindE (py_arith Sub (PyInt 1) s) (\<lambda>lo. Inr (Decimal lo))
                 = Inr (PyDecimal (Fin (float_round (1 - \<sigma>))))"
      by (simp add: int_one_to_float bindE_def float_op_def float_of_rat_near_one [OF small(1)]
            Decimal_def)
    with float_round_near_one [OF small(1)] show ?thesis
      by blast
  next
    assume "s = PyDecimal (Fin \<sigma>)"
    then have "bindE (py_arith Sub (PyInt 1) s) (\<lambda>lo. Inr (Decimal lo))
                 = Inr (PyDecimal (Fin (dec_round (1 - \<sigma>))))"
      by (simp add: bindE_def dec_op_def dec_of_rat_near_one [OF small(2)] Decimal_def)
    moreover have "\<bar>dec_round (1 - \<sigma>) - (1 - \<sigma>)\<bar> \<le> 1 / 2 ^ 53"
      using dec_round_near_one [OF small(2)] by (rule order_trans) simp
    ultimately show ?thesis
      by blast
  qed
qed

lemma one_plus:
  assumes "s = PyFloat (Fin \<sigma>) \<or> s = PyDecimal (Fin \<sigma>)" and "\<bar>\<sigma>\<bar> \<le> 1 / 2"
  shows "\<exists>c. bindE (py_arith Add (PyInt 1) s) (\<lambda>hi. Inr (Decimal hi)) = Inr (PyDecimal (Fin c))
           \<and> \<bar>c - (1 + \<sigma>)\<bar> \<le> 1 / 2 ^ 53"
proof -
  have small: "\<bar>1 + \<sigma>\<bar> < 2" "\<bar>1 + \<sigma>\<bar> < 10"
    using assms(2) by linarith+
  from assms(1) show ?thesis
  proof
    assume "s = PyFloat (Fin \<sigma>)"
    then have "bindE (py_arith Add (PyInt 1) s) (\<lambda>hi. Inr (Decimal hi))
                 = Inr (PyDecimal (Fin (float_round (1 + \<sigma>))))"
      by (simp add: int_one_to_float bindE_def float_op_def float_of_rat_near_one [OF small(1)]
            Decimal_def)
    with float_round_near_one [OF small(1)] show ?thesis
      by blast
  next
    assume "s = PyDecimal (Fin \<sigma>)"
    then have "bindE (py_arith Add (PyInt 1) s) (\<lambda>hi. Inr (Decimal hi))
                 = Inr (PyDecimal (Fin (dec_round (1 + \<sigma>))))"
      by (simp add: bindE_def dec_op_def dec_of_rat_near_one [OF small(2)] Decimal_def)
    moreover have "\<bar>dec_round (1 + \<sigma>) - (1 + \<sigma>)\<bar> \<le> 1 / 2 ^ 53"
      using dec_round_near_one [OF small(2)] by (rule order_trans) simp
    ultimately show ?thesis
      by blast
  qed
qed

lemma decimal_product:
  "py_arith Mul (PyDecimal (Fin r)) (PyDecimal (Fin c)) = Inr p \<Longrightarrow>
   p = PyDecimal (Fin (dec_round (r * c)))"
  by (auto simp: bindE_def dec_op_def dest: dec_of_rat_value split: sum.splits)

lemma create_proposal_prices:
  assumes p: "create_proposal cfg h = Inr proposal"
      and s: "dynamic_spread cfg h = Inr s" "value_of s = Fin \<sigma>" "\<bar>\<sigma>\<bar> \<le> 1 / 2"
      and r: "get_price_by_type h = Fin r"
  shows "\<exists>c1 c2. map price proposal =
             [PyDecimal (Fin (dec_round (r * c1))), PyDecimal (Fin (dec_round (r * c2)))]
           \<and> map order_side proposal = [BUY, SELL]
           \<and> \<bar>c1 - (1 - \<sigma>)\<bar> \<le> 1 / 2 ^ 53 \<and> \<bar>c2 - (1 + \<sigma>)\<bar> \<le> 1 / 2 ^ 53"
proof -
  from dynamic_spread_kind [OF s(1)] s(2)
  have kind: "s = PyFloat (Fin \<sigma>) \<or> s = PyDecimal (Fin \<sigma>)"
    by simp
  from one_minus [OF kind s(3)] obtain c1 where
    c1: "bindE (py_arith Sub (PyInt 1) s) (\<lambda>lo. Inr (Decimal lo)) = Inr (PyDecimal (Fin c1))"
        "\<bar>c1 - (1 - \<sigma>)\<bar> \<le> 1 / 2 ^ 53"
    by blast
  from one_plus [OF kind s(3)] obtain c2 where
    c2: "bindE (py_arith Add (PyInt 1) s) (\<lambda>hi. Inr (Decimal hi)) = Inr (PyDecimal (Fin c2))"
        "\<bar>c2 - (1 + \<sigma>)\<bar> \<le> 1 / 2 ^ 53"
    by blast
  from c1(1) obtain lo where lo: "py_arith Sub (PyInt 1) s = Inr lo" "Decimal lo = PyDecimal (Fin c1)"
    by (auto simp: bindE_def split: sum.splits)
  from c2(1) obtain hi where hi: "py_arith Add (PyInt 1) s = Inr hi" "Decimal hi = PyDecimal (Fin c2)"
    by (auto simp: bindE_def split: sum.splits)
  from p obtain bid ask where
    bid: "py_arith Mul (PyDecimal (Fin r)) (PyDecimal (Fin c1)) = Inr bid"
    and ask: "py_arith Mul (PyDecimal (Fin r)) (PyDecimal (Fin c2)) = Inr ask"
    and shape: "map price proposal = [bid, ask]" "map order_side proposal = [BUY, SELL]"
    unfolding create_proposal_def Let_def s(1) r
    by (auto simp: bindE_def lo hi simp del: py_arith.simps split: sum.splits)
  from decimal_product [OF bid] decimal_product [OF ask] shape c1(2) c2(2)
  show ?thesis
    by auto
qed

lemma abs_diff_bounds:
  fixes c d e :: rat
  assumes "\<bar>c - d\<bar> \<le> e"
  shows "d - e \<le> c" and "c \<le> d + e"
  using abs_le_D1 [OF assms] abs_le_D2 [OF assms] by linarith+

lemma dec_round_upper:
  assumes "smallest_normal \<le> y" "y \<le> r * k" "0 < r" "k * (1 + 1 / (2 * 10 ^ 27)) < 1"
  shows "dec_round y < r"
proof -
  have y: "0 < y"
    using assms(1) smallest_normal_pos by simp
  then have "\<bar>dec_round y - y\<bar> \<le> y / (2 * 10 ^ 27)"
    using dec_round_relative [of y] assms(1) by simp
  then have "dec_round y - y \<le> y / (2 * 10 ^ 27)"
    by (rule abs_le_D1)
  then have "dec_round y \<le> y * (1 + 1 / (2 * 10 ^ 27))"
    by (simp add: algebra_simps)
  also have "\<dots> \<le> (r * k) * (1 + 1 / (2 * 10 ^ 27))"
    using assms(2) by (intro mult_right_mono) simp_all
  also have "\<dots> = r * (k * (1 + 1 / (2 * 10 ^ 27)))"
    by simp
  also have "\<dots> < r * 1"
    using assms(3,4) by (intro mult_strict_left_mono)
  finally show ?thesis
    by simp
qed

lemma dec_round_lower:
  assumes "smallest_normal \<le> y" "r * k \<le> y" "0 < r" "1 < k * (1 - 1 / (2 * 10 ^ 27))"
  shows "r < dec_round y"
proof -
  have y: "0 < y"
    using assms(1) smallest_normal_pos by simp
  then have "\<bar>dec_round y - y\<bar> \<le> y / (2 * 10 ^ 27)"
    using dec_round_relative [of y] assms(1) by simp
  then have "- (dec_round y - y) \<le> y / (2 * 10 ^ 27)"
    by (rule abs_le_D2)
  then have le: "y * (1 - 1 / (2 * 10 ^ 27)) \<le> dec_round y"
    by (simp add: algebra_simps)
  have "r * 1 < r * (k * (1 - 1 / (2 * 10 ^ 27)))"
    using assms(3,4) by (intro mult_strict_left_mono)
  also have "\<dots> = (r * k) * (1 - 1 / (2 * 10 ^ 27))"
    by simp
  also have "\<dots> \<le> y * (1 - 1 / (2 * 10 ^ 27))"
    using assms(2) by (intro mult_right_mono) simp_all
  finally show ?thesis
    using le by simp
qed

section \<open>The examples, evaluated\<close>

lemma example_spread_eval:
  "dynamic_spread VolatilitySpreadMaker example_host = Inr (PyDecimal (Fin example_spread))"
  by code_simp

lemma example_proposal_eval:
  "create_proposal VolatilitySpreadMaker example_host = Inr example_proposal"
  by code_simp

lemma example_raw_eval:
  "bindE (py_arith Mul (PyFloat (Fin (3602879701896397 / 4503599627370496)))
            (PyFloat (Fin (atr_multiplier VolatilitySpreadMaker))))
     (\<lambda>scaled. py_arith Div (Decimal scaled) (PyDecimal (Fin 2000)))
   = Inr (PyDecimal (Fin example_spread))"
  by code_simp

lemma example_scaled_eval:
  "float_of_rat (3602879701896397 / 4503599627370496 * atr_multiplier VolatilitySpreadMaker)
   = Fin (1080863910568919 / 1125899906842624)"
  by code_simp

lemma example_refresh_eval:
  "py_arith Add (PyFloat (Fin 1000)) (PyInt 15) = Inr (PyFloat (Fin 1015))"
  by code_simp

lemma swapped_spread_eval:
  "dynamic_spread swapped_config example_host
   = Inr (PyFloat (Fin (5534023222112865 / 18446744073709551616)))"
  by code_simp

lemma negative_proposal_eval:
  "create_proposal VolatilitySpreadMaker negative_host = Inr negative_proposal"
  by code_simp

lemma tiny_spread_eval:
  "dynamic_spread tiny_config example_host = Inr (PyFloat (Fin (1 / 1152921504606846976)))"
  by code_simp

lemma tiny_proposal_eval:
  "create_proposal tiny_config example_host = Inr tiny_proposal"
  by code_simp

lemma example_tick:
  "on_tick VolatilitySpreadMaker example_host initial = (example_after, None)"
proof -
  have gate: "py_le (create_timestamp initial) (PyFloat (current_timestamp example_host))
                = Inr True"
    by (simp add: initial_def example_host_def py_le_def)
  have ready: "candles_ready example_host"
    by (simp add: example_host_def)
  have t: "py_arith Add (PyFloat (current_timestamp example_host))
             (PyInt (order_refresh_time VolatilitySpreadMaker)) = Inr (PyFloat (Fin 1015))"
    using example_refresh_eval by (simp add: example_host_def VolatilitySpreadMaker_def)
  have placed: "place_orders VolatilitySpreadMaker
           (cancel_all_orders VolatilitySpreadMaker example_host initial)
           (adjust_proposal_to_budget example_host example_proposal)
         = example_after \<lparr> create_timestamp := PyInt 0 \<rparr>"
    by (simp add: cancel_all_orders_def example_host_def adjust_proposal_to_budget_def
          example_proposal_def place_order_def buy_def sell_def cancel_def initial_def
          example_after_def VolatilitySpreadMaker_def)
  show ?thesis
    using placed
    by (simp add: on_tick_cycle [OF gate ready] example_proposal_eval t example_after_def
          del: py_arith.simps)
qed

section \<open>Claims about the spread\<close>

text \<open>
  C1. The claim is that for every reference price above zero and every volatility that
  is not negative the spread lies between \<open>min_spread\<close> and \<open>max_spread\<close>. At the
  volatility zero the comparison \<open>atr <= 0\<close> holds and the fallback multiplies the
  Decimal reference price by the float \<open>min_spread\<close>: \<open>create_proposal\<close> raises
  TypeError and computes no spread.
\<close>

theorem zero_volatility_raises:
  "dynamic_spread VolatilitySpreadMaker (example_host \<lparr> last_atr := Some (Fin 0) \<rparr>)
     = Inl TypeError
   \<and> create_proposal VolatilitySpreadMaker (example_host \<lparr> last_atr := Some (Fin 0) \<rparr>)
     = Inl TypeError"
proof -
  have "dynamic_spread VolatilitySpreadMaker (example_host \<lparr> last_atr := Some (Fin 0) \<rparr>)
          = Inl TypeError"
    by (rule fallback_raises) simp
  then show ?thesis
    by (simp add: create_proposal_raises)
qed

text \<open>
  C2. The claim is that an absent or non-positive volatility is replaced by
  \<open>reference_price * min_spread\<close> and that the spread is then \<open>min_spread\<close>. The
  replacement is the product of a Decimal and a float, which raises TypeError: with the
  volatility absent \<open>create_proposal\<close> returns no quotes.
\<close>

theorem absent_volatility_raises:
  "dynamic_spread VolatilitySpreadMaker (example_host \<lparr> last_atr := None \<rparr>) = Inl TypeError
   \<and> create_proposal VolatilitySpreadMaker (example_host \<lparr> last_atr := None \<rparr>)
     = Inl TypeError"
proof -
  have "dynamic_spread VolatilitySpreadMaker (example_host \<lparr> last_atr := None \<rparr>)
          = Inl TypeError"
    by (rule fallback_raises) simp
  then show ?thesis
    by (simp add: create_proposal_raises)
qed

text \<open>
  C3, as amended. The clamp is \<open>min(max(raw, min_spread), max_spread)\<close>: the outer
  \<open>min\<close> makes \<open>max_spread\<close> the absolute ceiling. A computed spread is a finite
  number that never exceeds \<open>max_spread\<close>; it is at least \<open>min_spread\<close> when
  \<open>min_spread \<le> max_spread\<close>; and when \<open>max_spread\<close> is misconfigured below
  \<open>min_spread\<close> the spread is the float \<open>max_spread\<close> itself.
\<close>

theorem max_spread_is_ceiling:
  assumes "dynamic_spread cfg h = Inr s"
  shows "\<exists>\<sigma>. value_of s = Fin \<sigma> \<and> \<sigma> \<le> max_spread cfg
           \<and> (min_spread cfg \<le> max_spread cfg \<longrightarrow> min_spread cfg \<le> \<sigma>)
           \<and> (max_spread cfg < min_spread cfg \<longrightarrow> s = PyFloat (Fin (max_spread cfg)))"
  using assms by (rule dynamic_spread_clamp)

theorem max_spread_is_ceiling_witness:
  "dynamic_spread VolatilitySpreadMaker example_host = Inr (PyDecimal (Fin example_spread))
   \<and> min_spread VolatilitySpreadMaker \<le> max_spread VolatilitySpreadMaker
   \<and> min_spread VolatilitySpreadMaker \<le> example_spread
   \<and> example_spread \<le> max_spread VolatilitySpreadMaker
   \<and> dynamic_spread swapped_config example_host = Inr (PyFloat (Fin (max_spread swapped_config)))
   \<and> max_spread swapped_config < min_spread swapped_config"
proof -
  have 1: "min_spread VolatilitySpreadMaker \<le> max_spread VolatilitySpreadMaker"
    by (simp add: VolatilitySpreadMaker_def)
  have 2: "max_spread swapped_config < min_spread swapped_config"
    by (simp add: swapped_config_def VolatilitySpreadMaker_def)
  obtain s where s: "dynamic_spread swapped_config example_host = Inr s"
    using swapped_spread_eval by blast
  from max_spread_is_ceiling [OF example_spread_eval] 1
  have "min_spread VolatilitySpreadMaker \<le> example_spread"
    and "example_spread \<le> max_spread VolatilitySpreadMaker"
    by auto
  moreover from max_spread_is_ceiling [OF s] 2 s
  have "dynamic_spread swapped_config example_host
          = Inr (PyFloat (Fin (max_spread swapped_config)))"
    by auto
  ultimately show ?thesis
    using 1 2 example_spread_eval by simp
qed

theorem min_spread_floor_counterexample:
  "dynamic_spread swapped_config example_host
     = Inr (PyFloat (Fin (5534023222112865 / 18446744073709551616)))
   \<and> get_price_by_type example_host = Fin 2000
   \<and> (5534023222112865 / 18446744073709551616 :: rat) < min_spread swapped_config"
  using swapped_spread_eval
  by (simp add: swapped_config_def VolatilitySpreadMaker_def example_host_def)

text \<open>
  C4, as amended. Nothing checks the reference price. When it is unavailable (the
  Decimal NaN), or zero while the volatility is absent or finite with a finite product
  with the multiplier, \<open>create_proposal\<close> raises; a tick that had reached it leaves
  with that exception after cancelling the active orders, places no order and does not
  advance \<open>create_timestamp\<close>. A negative reference price is not rejected.
\<close>

theorem unusable_price_raises:
  assumes "get_price_by_type h = NaN
           \<or> get_price_by_type h = Fin 0
             \<and> (last_atr h = None
                \<or> (\<exists>a p. last_atr h = Some (Fin a)
                      \<and> float_of_rat (a * atr_multiplier cfg) = Fin p))"
  shows "\<exists>e. create_proposal cfg h = Inl e
           \<and> (py_le (create_timestamp s) (PyFloat (current_timestamp h)) = Inr True
                \<and> candles_ready h \<longrightarrow>
              on_tick cfg h s = (cancel_all_orders cfg h s, Some e))"
proof -
  from assms obtain e where "dynamic_spread cfg h = Inl e"
    using nan_price_raises zero_price_raises by blast
  then have e: "create_proposal cfg h = Inl e"
    by (rule create_proposal_raises)
  then show ?thesis
    using on_tick_cycle [of s h cfg] by auto
qed

theorem unusable_price_raises_witness:
  "get_price_by_type (example_host \<lparr> get_price_by_type := NaN \<rparr>) = NaN
   \<and> get_price_by_type (example_host \<lparr> get_price_by_type := Fin 0 \<rparr>) = Fin 0
   \<and> float_of_rat (3602879701896397 / 4503599627370496 * atr_multiplier VolatilitySpreadMaker)
       = Fin (1080863910568919 / 1125899906842624)
   \<and> py_le (create_timestamp initial) (PyFloat (current_timestamp example_host)) = Inr True
   \<and> candles_ready example_host
   \<and> fst (on_tick VolatilitySpreadMaker (example_host \<lparr> get_price_by_type := NaN \<rparr>) initial)
       = \<lparr> create_timestamp = PyInt 0,
           calls = [Cancel ''binance_paper_trade'' ''ETH-USDT'' ''order-1''] \<rparr>
   \<and> snd (on_tick VolatilitySpreadMaker (example_host \<lparr> get_price_by_type := NaN \<rparr>) initial)
       \<noteq> None
   \<and> fst (on_tick VolatilitySpreadMaker (example_host \<lparr> get_price_by_type := Fin 0 \<rparr>) initial)
       = \<lparr> create_timestamp = PyInt 0,
           calls = [Cancel ''binance_paper_trade'' ''ETH-USDT'' ''order-1''] \<rparr>
   \<and> snd (on_tick VolatilitySpreadMaker (example_host \<lparr> get_price_by_type := Fin 0 \<rparr>) initial)
       \<noteq> None"
proof -
  let ?n = "example_host \<lparr> get_price_by_type := NaN \<rparr>"
  let ?z = "example_host \<lparr> get_price_by_type := Fin 0 \<rparr>"
  have gate: "py_le (create_timestamp initial) (PyFloat (current_timestamp example_host))
                = Inr True"
    by (simp add: initial_def example_host_def py_le_def)
  have ready: "candles_ready example_host"
    by (simp add: example_host_def)
  have atr: "last_atr ?z = Some (Fin (3602879701896397 / 4503599627370496))"
    by (simp add: example_host_def)
  have c: "cancel_all_orders VolatilitySpreadMaker (example_host \<lparr> get_price_by_type := p \<rparr>)
             initial
           = \<lparr> create_timestamp = PyInt 0,
               calls = [Cancel ''binance_paper_trade'' ''ETH-USDT'' ''order-1''] \<rparr>" for p
    by (simp add: cancel_all_orders_def example_host_def cancel_def initial_def
          VolatilitySpreadMaker_def)
  from unusable_price_raises [of ?n VolatilitySpreadMaker initial] gate ready
  obtain e where "on_tick VolatilitySpreadMaker ?n initial
                    = (cancel_all_orders VolatilitySpreadMaker ?n initial, Some e)"
    by auto
  then have n: "fst (on_tick VolatilitySpreadMaker ?n initial)
                  = \<lparr> create_timestamp = PyInt 0,
                      calls = [Cancel ''binance_paper_trade'' ''ETH-USDT'' ''order-1''] \<rparr>"
    "snd (on_tick VolatilitySpreadMaker ?n initial) \<noteq> None"
    by (simp_all add: c)
  have "\<exists>a p. last_atr ?z = Some (Fin a)
          \<and> float_of_rat (a * atr_multiplier VolatilitySpreadMaker) = Fin p"
    using atr example_scaled_eval by blast
  moreover have "get_price_by_type ?z = Fin 0"
    by simp
  ultimately have zero: "get_price_by_type ?z = NaN
      \<or> get_price_by_type ?z = Fin 0
        \<and> (last_atr ?z = None
           \<or> (\<exists>a p. last_atr ?z = Some (Fin a)
                 \<and> float_of_rat (a * atr_multiplier VolatilitySpreadMaker) = Fin p))"
    by blast
  have gz: "py_le (create_timestamp initial) (PyFloat (current_timestamp ?z)) = Inr True"
    "candles_ready ?z"
    using gate ready by simp_all
  from unusable_price_raises [OF zero, of initial] gz
  obtain e where "on_tick VolatilitySpreadMaker ?z initial
                    = (cancel_all_orders VolatilitySpreadMaker ?z initial, Some e)"
    by blast
  then have z: "fst (on_tick VolatilitySpreadMaker ?z initial)
                  = \<lparr> create_timestamp = PyInt 0,
                      calls = [Cancel ''binance_paper_trade'' ''ETH-USDT'' ''order-1''] \<rparr>"
    "snd (on_tick VolatilitySpreadMaker ?z initial) \<noteq> None"
    by (simp_all add: c)
  from gate ready n z example_scaled_eval show ?thesis
    by simp
qed

theorem negative_price_counterexample:
  "get_price_by_type negative_host = Fin (- 2000)
   \<and> create_proposal VolatilitySpreadMaker negative_host = Inr negative_proposal
   \<and> snd (on_tick VolatilitySpreadMaker negative_host initial) = None
   \<and> calls (fst (on_tick VolatilitySpreadMaker negative_host initial))
       = [Cancel ''binance_paper_trade'' ''ETH-USDT'' ''order-1'',
          Buy ''binance_paper_trade'' ''ETH-USDT'' (PyDecimal (Fin (1 / 100))) LIMIT
            (PyDecimal (Fin (- 1999400000000000066080474426 / 1000000000000000000000000))),
          Sell ''binance_paper_trade'' ''ETH-USDT'' (PyDecimal (Fin (1 / 100))) LIMIT
            (PyDecimal (Fin (- 2000599999999999933919525574 / 1000000000000000000000000)))]"
proof -
  have gate: "py_le (create_timestamp initial) (PyFloat (current_timestamp negative_host))
                = Inr True"
    by (simp add: initial_def negative_host_def example_host_def py_le_def)
  have ready: "candles_ready negative_host"
    by (simp add: negative_host_def example_host_def)
  have t: "py_arith Add (PyFloat (current_timestamp negative_host))
             (PyInt (order_refresh_time VolatilitySpreadMaker)) = Inr (PyFloat (Fin 1015))"
    using example_refresh_eval
    by (simp add: negative_host_def example_host_def VolatilitySpreadMaker_def)
  have placed: "calls (place_orders VolatilitySpreadMaker
           (cancel_all_orders VolatilitySpreadMaker negative_host initial)
           (adjust_proposal_to_budget negative_host negative_proposal))
         = [Cancel ''binance_paper_trade'' ''ETH-USDT'' ''order-1'',
          Buy ''binance_paper_trade'' ''ETH-USDT'' (PyDecimal (Fin (1 / 100))) LIMIT
            (PyDecimal (Fin (- 1999400000000000066080474426 / 1000000000000000000000000))),
          Sell ''binance_paper_trade'' ''ETH-USDT'' (PyDecimal (Fin (1 / 100))) LIMIT
            (PyDecimal (Fin (- 2000599999999999933919525574 / 1000000000000000000000000)))]"
    by (simp add: cancel_all_orders_def negative_host_def example_host_def
          adjust_proposal_to_budget_def negative_proposal_def place_order_def buy_def sell_def
          cancel_def initial_def VolatilitySpreadMaker_def)
  show ?thesis
    using placed
    by (simp add: on_tick_cycle [OF gate ready] negative_proposal_eval t
          del: py_arith.simps)
       (simp add: negative_host_def)
qed

text \<open>
  C5, as amended. The quotes are rounded: \<open>1 - spread\<close> and \<open>1 + spread\<close> to 53 bits
  or 28 digits, the products with the reference price to 28 digits. Whenever quotes are
  returned for a spread between \<open>1E-15\<close> and \<open>1/2\<close> and a reference price of at least
  \<open>1E-999998\<close> (ten times the smallest normal Decimal), the bid price is strictly
  below the reference price and the ask price strictly above it.
\<close>

theorem quotes_straddle_reference:
  assumes p: "create_proposal cfg h = Inr proposal"
      and s: "dynamic_spread cfg h = Inr s" "value_of s = Fin \<sigma>"
      and \<sigma>: "1 / 10 ^ 15 \<le> \<sigma>" "\<sigma> \<le> 1 / 2"
      and r: "get_price_by_type h = Fin r" "10 * smallest_normal \<le> r"
  shows "\<exists>bid ask. map price proposal = [PyDecimal (Fin bid), PyDecimal (Fin ask)]
           \<and> map order_side proposal = [BUY, SELL] \<and> bid < r \<and> r < ask"
proof -
  have abs\<sigma>: "\<bar>\<sigma>\<bar> \<le> 1 / 2"
    using \<sigma> by (simp add: abs_le_iff)
  from create_proposal_prices [OF p s abs\<sigma> r(1)] obtain c1 c2 where
    shape: "map price proposal =
             [PyDecimal (Fin (dec_round (r * c1))), PyDecimal (Fin (dec_round (r * c2)))]"
      "map order_side proposal = [BUY, SELL]"
    and c1: "\<bar>c1 - (1 - \<sigma>)\<bar> \<le> 1 / 2 ^ 53" and c2: "\<bar>c2 - (1 + \<sigma>)\<bar> \<le> 1 / 2 ^ 53"
    by auto
  have rpos: "0 < r"
    using r(2) smallest_normal_pos by simp
  have c1b: "1 / 10 \<le> c1" "c1 \<le> 1 - 1 / 10 ^ 15 + 1 / 2 ^ 53"
    using abs_diff_bounds [OF c1] \<sigma> by simp_all
  have c2b: "1 + 1 / 10 ^ 15 - 1 / 2 ^ 53 \<le> c2"
    using abs_diff_bounds [OF c2] \<sigma> by simp_all
  have "smallest_normal \<le> r * (1 / 10)"
    using r(2) by simp
  also have "\<dots> \<le> r * c1"
    using c1b(1) rpos by (intro mult_left_mono) simp_all
  finally have n1: "smallest_normal \<le> r * c1" .
  have "r * c1 \<le> r * (1 - 1 / 10 ^ 15 + 1 / 2 ^ 53)"
    using c1b(2) rpos by (intro mult_left_mono) simp_all
  from dec_round_upper [OF n1 this rpos] have bid: "dec_round (r * c1) < r"
    by simp
  have le2: "r * (1 + 1 / 10 ^ 15 - 1 / 2 ^ 53) \<le> r * c2"
    using c2b rpos by (intro mult_left_mono) simp_all
  have "smallest_normal \<le> r * 1"
    using r(2) smallest_normal_pos by simp
  also have "\<dots> \<le> r * (1 + 1 / 10 ^ 15 - 1 / 2 ^ 53)"
    using rpos by (intro mult_left_mono) simp_all
  finally have n2: "smallest_normal \<le> r * c2"
    using le2 by simp
  from dec_round_lower [OF n2 le2 rpos] have ask: "r < dec_round (r * c2)"
    by simp
  from shape bid ask show ?thesis
    by auto
qed

theorem quotes_straddle_reference_witness:
  "create_proposal VolatilitySpreadMaker example_host = Inr example_proposal
   \<and> dynamic_spread VolatilitySpreadMaker example_host = Inr (PyDecimal (Fin example_spread))
   \<and> 1 / 10 ^ 15 \<le> example_spread \<and> example_spread \<le> 1 / 2
   \<and> get_price_by_type example_host = Fin 2000 \<and> 10 * smallest_normal \<le> 2000
   \<and> map price example_proposal = [PyDecimal (Fin example_bid), PyDecimal (Fin example_ask)]
   \<and> example_bid < 2000 \<and> 2000 < example_ask"
proof -
  have r: "get_price_by_type example_host = Fin 2000"
    by (simp add: example_host_def)
  have n: "10 * smallest_normal \<le> 2000"
    using smallest_normal_le_one by simp
  have v: "value_of (PyDecimal (Fin example_spread)) = Fin example_spread"
    by simp
  have \<sigma>: "1 / 10 ^ 15 \<le> example_spread" "example_spread \<le> 1 / 2"
    by (simp_all add: example_spread_def)
  have prices: "map price example_proposal
                  = [PyDecimal (Fin example_bid), PyDecimal (Fin example_ask)]"
    by (simp add: example_proposal_def)
  from quotes_straddle_reference [OF example_proposal_eval example_spread_eval v \<sigma> r n] prices
  have "example_bid < 2000" and "2000 < example_ask"
    by auto
  with example_proposal_eval example_spread_eval \<sigma> r n prices show ?thesis
    by simp
qed

theorem tiny_spread_counterexample:
  "get_price_by_type example_host = Fin 2000
   \<and> dynamic_spread tiny_config example_host = Inr (PyFloat (Fin (1 / 1152921504606846976)))
   \<and> (0 :: rat) < 1 / 1152921504606846976
   \<and> create_proposal tiny_config example_host = Inr tiny_proposal
   \<and> map price tiny_proposal = [PyDecimal (Fin 2000), PyDecimal (Fin 2000)]"
  using tiny_spread_eval tiny_proposal_eval
  by (simp add: example_host_def tiny_proposal_def)

text \<open>
  C6, as amended. The two quotes are symmetric around the reference price up to
  rounding: whenever quotes are returned for a spread of at most \<open>1/2\<close> in absolute
  value and a reference price of at least \<open>1E-999998\<close>, the ask price minus the bid
  price differs from \<open>2 * reference_price * spread\<close> by at most
  \<open>reference_price / 2^51\<close>.
\<close>

theorem quotes_nearly_symmetric:
  assumes p: "create_proposal cfg h = Inr proposal"
      and s: "dynamic_spread cfg h = Inr s" "value_of s = Fin \<sigma>"
      and \<sigma>: "\<bar>\<sigma>\<bar> \<le> 1 / 2"
      and r: "get_price_by_type h = Fin r" "10 * smallest_normal \<le> r"
  shows "\<exists>bid ask. map price proposal = [PyDecimal (Fin bid), PyDecimal (Fin ask)]
           \<and> \<bar>ask - bid - 2 * r * \<sigma>\<bar> \<le> r / 2 ^ 51"
proof -
  from create_proposal_prices [OF p s \<sigma> r(1)] obtain c1 c2 where
    shape: "map price proposal =
             [PyDecimal (Fin (dec_round (r * c1))), PyDecimal (Fin (dec_round (r * c2)))]"
    and c1: "\<bar>c1 - (1 - \<sigma>)\<bar> \<le> 1 / 2 ^ 53" and c2: "\<bar>c2 - (1 + \<sigma>)\<bar> \<le> 1 / 2 ^ 53"
    by auto
  have rpos: "0 < r"
    using r(2) smallest_normal_pos by simp
  have \<sigma>b: "- (1 / 2) \<le> \<sigma>" "\<sigma> \<le> 1 / 2"
    using abs_le_D1 [OF \<sigma>] abs_le_D2 [OF \<sigma>] by linarith+
  have c1b: "1 / 10 \<le> c1" "c1 \<le> 2"
    using abs_diff_bounds [OF c1] \<sigma>b by simp_all
  have c2b: "1 / 10 \<le> c2" "c2 \<le> 2"
    using abs_diff_bounds [OF c2] \<sigma>b by simp_all
  have tenth: "smallest_normal \<le> r * (1 / 10)"
    using r(2) by simp
  have rounding: "\<bar>dec_round (r * c) - r * c\<bar> \<le> r / 10 ^ 27"
    if "1 / 10 \<le> c" "c \<le> 2" for c
  proof -
    have "r * (1 / 10) \<le> r * c"
      using that(1) rpos by (intro mult_left_mono) simp_all
    with tenth have n: "smallest_normal \<le> r * c"
      by simp
    then have "0 < r * c"
      using smallest_normal_pos by simp
    with dec_round_relative [of "r * c"] n
    have "\<bar>dec_round (r * c) - r * c\<bar> \<le> (r * c) / (2 * 10 ^ 27)"
      by simp
    also have "\<dots> \<le> (r * 2) / (2 * 10 ^ 27)"
      using that(2) rpos by (intro divide_right_mono mult_left_mono) simp_all
    finally show ?thesis
      by simp
  qed
  have scaled: "\<bar>r * c - r * d\<bar> \<le> r / 2 ^ 53" if "\<bar>c - d\<bar> \<le> 1 / 2 ^ 53" for c d
  proof -
    have "\<bar>r * c - r * d\<bar> = r * \<bar>c - d\<bar>"
      using rpos by (simp add: abs_mult flip: right_diff_distrib)
    also have "\<dots> \<le> r * (1 / 2 ^ 53)"
      using that rpos by (intro mult_left_mono) simp_all
    finally show ?thesis
      by simp
  qed
  note bounds = abs_diff_bounds [OF rounding [OF c1b]] abs_diff_bounds [OF rounding [OF c2b]]
    abs_diff_bounds [OF scaled [OF c1]] abs_diff_bounds [OF scaled [OF c2]]
  have "\<bar>dec_round (r * c2) - dec_round (r * c1) - 2 * r * \<sigma>\<bar> \<le> r / 2 ^ 51"
  proof (rule abs_leI)
    show "dec_round (r * c2) - dec_round (r * c1) - 2 * r * \<sigma> \<le> r / 2 ^ 51"
      using bounds rpos by (simp add: algebra_simps)
    show "- (dec_round (r * c2) - dec_round (r * c1) - 2 * r * \<sigma>) \<le> r / 2 ^ 51"
      using bounds rpos by (simp add: algebra_simps)
  qed
  with shape show ?thesis
    by auto
qed

theorem quotes_nearly_symmetric_witness:
  "create_proposal VolatilitySpreadMaker example_host = Inr example_proposal
   \<and> dynamic_spread VolatilitySpreadMaker example_host = Inr (PyDecimal (Fin example_spread))
   \<and> \<bar>example_spread\<bar> \<le> 1 / 2
   \<and> get_price_by_type example_host = Fin 2000 \<and> 10 * smallest_normal \<le> 2000
   \<and> map price example_proposal = [PyDecimal (Fin example_bid), PyDecimal (Fin example_ask)]
   \<and> \<bar>example_ask - example_bid - 2 * 2000 * example_spread\<bar> \<le> 2000 / 2 ^ 51"
proof -
  have r: "get_price_by_type example_host = Fin 2000"
    by (simp add: example_host_def)
  have n: "10 * smallest_normal \<le> 2000"
    using smallest_normal_le_one by simp
  have v: "value_of (PyDecimal (Fin example_spread)) = Fin example_spread"
    by simp
  have \<sigma>: "\<bar>example_spread\<bar> \<le> 1 / 2"
    by (simp add: example_spread_def)
  have prices: "map price example_proposal
                  = [PyDecimal (Fin example_bid), PyDecimal (Fin example_ask)]"
    by (simp add: example_proposal_def)
  from quotes_nearly_symmetric [OF example_proposal_eval example_spread_eval v \<sigma> r n] prices
  have "\<bar>example_ask - example_bid - 2 * 2000 * example_spread\<bar> \<le> 2000 / 2 ^ 51"
    by auto
  with example_proposal_eval example_spread_eval \<sigma> r n prices show ?thesis
    by simp
qed

theorem exact_symmetry_counterexample:
  "get_price_by_type example_host = Fin 2000
   \<and> dynamic_spread VolatilitySpreadMaker example_host = Inr (PyDecimal (Fin example_spread))
   \<and> create_proposal VolatilitySpreadMaker example_host = Inr example_proposal
   \<and> map price example_proposal = [PyDecimal (Fin example_bid), PyDecimal (Fin example_ask)]
   \<and> example_ask - example_bid \<noteq> 2 * 2000 * example_spread"
  using example_spread_eval example_proposal_eval
  by (simp add: example_host_def example_proposal_def example_bid_def example_ask_def
        example_spread_def)

text \<open>
  C7, as amended. For the reference price \<open>Decimal("2000")\<close>, the volatility \<open>0.8\<close>
  and the class attributes (multiplier \<open>1.2\<close>, bounds \<open>0.0003\<close> and \<open>0.002\<close>) the
  float product \<open>0.8 * 1.2\<close> is converted exactly and divided in 28 digits: the raw
  and the clamped spread are \<open>0.0004799999999999999822364316060\<close>, the bid is
  \<open>1999.040000000000000035527137\<close> and the ask \<open>2000.959999999999999964472864\<close>.
\<close>

theorem example_quotes:
  "bindE (py_arith Mul (PyFloat (Fin (3602879701896397 / 4503599627370496)))
            (PyFloat (Fin (atr_multiplier VolatilitySpreadMaker))))
     (\<lambda>scaled. py_arith Div (Decimal scaled) (PyDecimal (Fin 2000)))
     = Inr (PyDecimal
         (Fin (4799999999999999822364316060 / 10000000000000000000000000000000)))
   \<and> dynamic_spread VolatilitySpreadMaker example_host
     = Inr (PyDecimal
         (Fin (4799999999999999822364316060 / 10000000000000000000000000000000)))
   \<and> create_proposal VolatilitySpreadMaker example_host
     = Inr [\<lparr> trading_pair = ''ETH-USDT'', is_maker = True, order_type = LIMIT,
               order_side = BUY, amount = PyDecimal (Fin (1 / 100)),
               price = PyDecimal
                 (Fin (1999040000000000000035527137 / 1000000000000000000000000)) \<rparr>,
            \<lparr> trading_pair = ''ETH-USDT'', is_maker = True, order_type = LIMIT,
               order_side = SELL, amount = PyDecimal (Fin (1 / 100)),
               price = PyDecimal
                 (Fin (2000959999999999999964472864 / 1000000000000000000000000)) \<rparr>]"
  unfolding example_raw_eval example_spread_eval example_proposal_eval
  unfolding example_proposal_def example_spread_def example_bid_def example_ask_def
  by (intro conjI refl)

theorem example_quotes_counterexample:
  "dynamic_spread VolatilitySpreadMaker example_host = Inr (PyDecimal (Fin example_spread))
   \<and> example_spread \<noteq> 48 / 100000
   \<and> create_proposal VolatilitySpreadMaker example_host = Inr example_proposal
   \<and> map price example_proposal = [PyDecimal (Fin example_bid), PyDecimal (Fin example_ask)]
   \<and> example_bid \<noteq> 199904 / 100
   \<and> example_ask \<noteq> 200096 / 100"
  using example_spread_eval example_proposal_eval
  by (simp add: example_proposal_def example_spread_def example_bid_def example_ask_def)

section \<open>Claims about the tick\<close>

text \<open>
  C8. After a tick at host time \<open>t\<close> that ran the cycle to its end (orders cancelled,
  proposal placed), \<open>create_timestamp\<close> is the float \<open>t + order_refresh_time\<close>, and
  every tick at a host time below it makes no call into the host and changes nothing.
\<close>

theorem refresh_cadence:
  assumes gate: "py_le (create_timestamp s) (PyFloat (current_timestamp h)) = Inr True"
      and ready: "candles_ready h"
      and finished: "on_tick cfg h s = (s', None)"
  shows "py_arith Add (PyFloat (current_timestamp h)) (PyInt (order_refresh_time cfg))
           = Inr (create_timestamp s')
         \<and> (\<exists>c. create_timestamp s' = PyFloat c
               \<and> (\<forall>h'. xless (current_timestamp h') c \<longrightarrow> on_tick cfg h' s' = (s', None)))"
proof -
  from on_tick_cycle [OF gate ready, of cfg] finished
  obtain proposal t where
    t: "py_arith Add (PyFloat (current_timestamp h)) (PyInt (order_refresh_time cfg)) = Inr t"
    and s': "s' = (place_orders cfg (cancel_all_orders cfg h s)
                    (adjust_proposal_to_budget h proposal))\<lparr>create_timestamp := t\<rparr>"
    by (auto split: sum.splits)
  from s' have ct: "create_timestamp s' = t"
    by simp
  from float_plus_int [OF t] obtain c where c: "t = PyFloat c" ..
  have "on_tick cfg h' s' = (s', None)" if "xless (current_timestamp h') c" for h'
  proof -
    from that have "py_le (create_timestamp s') (PyFloat (current_timestamp h')) = Inr False"
      using xless_not_NaN [OF that] by (simp add: ct c py_le_floats)
    then show ?thesis
      by (rule on_tick_gate_closed)
  qed
  with t ct c show ?thesis
    by auto
qed

theorem refresh_cadence_witness:
  "py_le (create_timestamp initial) (PyFloat (current_timestamp example_host)) = Inr True
   \<and> candles_ready example_host
   \<and> on_tick VolatilitySpreadMaker example_host initial = (example_after, None)
   \<and> create_timestamp example_after = PyFloat (Fin 1015)
   \<and> on_tick VolatilitySpreadMaker (example_host \<lparr> current_timestamp := Fin 1014 \<rparr>)
        example_after = (example_after, None)"
proof -
  have gate: "py_le (create_timestamp initial) (PyFloat (current_timestamp example_host))
                = Inr True"
    by (simp add: initial_def example_host_def py_le_def)
  have ready: "candles_ready example_host"
    by (simp add: example_host_def)
  have ct: "create_timestamp example_after = PyFloat (Fin 1015)"
    by (simp add: example_after_def)
  from refresh_cadence [OF gate ready example_tick] ct
  have "\<forall>h'. xless (current_timestamp h') (Fin 1015) \<longrightarrow>
          on_tick VolatilitySpreadMaker h' example_after = (example_after, None)"
    by simp
  then have "on_tick VolatilitySpreadMaker (example_host \<lparr> current_timestamp := Fin 1014 \<rparr>)
               example_after = (example_after, None)"
    by simp
  with gate ready ct example_tick show ?thesis
    by simp
qed

text \<open>
  C9, as amended. Whenever the candle feed is not ready, \<open>on_tick\<close> cancels no order,
  places no order and leaves \<open>create_timestamp\<close> unchanged. If that tick had passed the
  time gate (\<open>create_timestamp <= current_timestamp\<close>), a next tick at a host time that
  is not earlier and with the feed ready passes the gate too and runs the cycle: it
  cancels the active orders, computes the proposal and, unless an exception leaves it,
  places the orders and advances \<open>create_timestamp\<close>.
\<close>

theorem not_ready_no_effect:
  "(\<not> candles_ready h \<longrightarrow> fst (on_tick cfg h s) = s)
   \<and> (\<not> candles_ready h
        \<and> py_le (create_timestamp s) (PyFloat (current_timestamp h)) = Inr True
        \<and> candles_ready h' \<and> current_timestamp h' \<noteq> NaN
        \<and> \<not> xless (current_timestamp h') (current_timestamp h) \<longrightarrow>
      on_tick cfg h' s =
        (case create_proposal cfg h' of
           Inl e \<Rightarrow> (cancel_all_orders cfg h' s, Some e)
         | Inr proposal \<Rightarrow>
             (case py_arith Add (PyFloat (current_timestamp h'))
                     (PyInt (order_refresh_time cfg)) of
                Inl e \<Rightarrow>
                  (place_orders cfg (cancel_all_orders cfg h' s)
                     (adjust_proposal_to_budget h' proposal), Some e)
              | Inr t \<Rightarrow>
                  ((place_orders cfg (cancel_all_orders cfg h' s)
                     (adjust_proposal_to_budget h' proposal))\<lparr>create_timestamp := t\<rparr>, None))))"
  using on_tick_not_ready [of h cfg s] on_tick_cycle [of s h' cfg] gate_stays_open
  by blast

theorem not_ready_no_effect_witness:
  "\<not> candles_ready (example_host \<lparr> current_timestamp := Fin 990, candles_ready := False \<rparr>)
   \<and> py_le (create_timestamp initial) (PyFloat (Fin 990)) = Inr True
   \<and> fst (on_tick VolatilitySpreadMaker
        (example_host \<lparr> current_timestamp := Fin 990, candles_ready := False \<rparr>) initial)
       = initial
   \<and> candles_ready example_host
   \<and> \<not> xless (current_timestamp example_host) (Fin 990)
   \<and> on_tick VolatilitySpreadMaker example_host initial = (example_after, None)"
proof -
  let ?h = "example_host \<lparr> current_timestamp := Fin 990, candles_ready := False \<rparr>"
  have nr: "\<not> candles_ready ?h"
    by simp
  have gate: "py_le (create_timestamp initial) (PyFloat (current_timestamp ?h)) = Inr True"
    by (simp add: initial_def py_le_def)
  have ready: "candles_ready example_host" "current_timestamp example_host \<noteq> NaN"
    "\<not> xless (current_timestamp example_host) (current_timestamp ?h)"
    by (simp_all add: example_host_def)
  from not_ready_no_effect [of ?h VolatilitySpreadMaker initial example_host] nr
  have "fst (on_tick VolatilitySpreadMaker ?h initial) = initial"
    by blast
  with nr gate ready example_tick show ?thesis
    by simp
qed

theorem next_ready_tick_counterexample:
  "\<not> candles_ready (example_host \<lparr> current_timestamp := Fin 1001, candles_ready := False \<rparr>)
   \<and> on_tick VolatilitySpreadMaker
        (example_host \<lparr> current_timestamp := Fin 1001, candles_ready := False \<rparr>) waiting
       = (waiting, None)
   \<and> candles_ready (example_host \<lparr> current_timestamp := Fin 1002 \<rparr>)
   \<and> on_tick VolatilitySpreadMaker (example_host \<lparr> current_timestamp := Fin 1002 \<rparr>) waiting
       = (waiting, None)
   \<and> cancel_all_orders VolatilitySpreadMaker
        (example_host \<lparr> current_timestamp := Fin 1002 \<rparr>) waiting \<noteq> waiting"
  by (simp add: on_tick_def py_le_def waiting_def example_host_def cancel_all_orders_def
        cancel_def)

end
